theory Spec2Isabelle
  imports Main "HOL-Library.AList" "HOL-Library.Char_ord" "HOL-Library.List_Lexorder"
begin

section \<open>Python values handled by the client\<close>

text \<open>
  The values that flow through \<^verbatim>\<open>dipwrapper.py\<close>: what \<^verbatim>\<open>response.json()\<close> decodes
  (null, booleans, integers, strings, arrays, objects) and what a caller puts into a
  parameter dict (strings and lists of strings). A Python dict with string keys is an
  association list in insertion order, read with \<open>map_of\<close> (the first binding of a key is
  the dict's binding). JSON numbers with a fraction or an exponent (Python floats) are
  outside the model.
\<close>

datatype pyval =
    PNone
  | PBool bool
  | PInt int
  | PStr string
  | PList "pyval list"
  | PDict "(string \<times> pyval) list"

type_synonym pydict = "(string \<times> pyval) list"

text \<open>\<^verbatim>\<open>d.get(key)\<close>: the value bound to the key, \<^verbatim>\<open>None\<close> when the key is absent.\<close>

definition dict_get :: "pydict \<Rightarrow> string \<Rightarrow> pyval" where
  "dict_get d key = (case map_of d key of None \<Rightarrow> PNone | Some v \<Rightarrow> v)"

text \<open>\<^verbatim>\<open>d[key] = v\<close>: an existing key keeps its place, a new key goes to the end.\<close>

definition dict_set :: "string \<Rightarrow> pyval \<Rightarrow> pydict \<Rightarrow> pydict" where
  "dict_set key v d = AList.update key v d"

text \<open>\<^verbatim>\<open>d.update(other)\<close>: the bindings of \<open>other\<close> are assigned in its iteration order.\<close>

definition dict_update :: "pydict \<Rightarrow> pydict \<Rightarrow> pydict" where
  "dict_update d other = fold (\<lambda>kv. dict_set (fst kv) (snd kv)) other d"

text \<open>
  Python's \<^verbatim>\<open>==\<close> on these values is structural, except that \<^verbatim>\<open>True == 1\<close> and
  \<^verbatim>\<open>False == 0\<close> hold and that dicts are compared without regard to insertion order.
  \<open>py_norm\<close> maps a value to a canonical representative of its \<^verbatim>\<open>==\<close>-class: booleans
  become integers, a dict keeps the first binding of each key, sorted by key.
\<close>

primrec py_norm :: "pyval \<Rightarrow> pyval" where
  "py_norm PNone = PNone"
| "py_norm (PBool b) = PInt (if b then 1 else 0)"
| "py_norm (PInt i) = PInt i"
| "py_norm (PStr s) = PStr s"
| "py_norm (PList xs) = PList (map py_norm xs)"
| "py_norm (PDict kvs) = PDict (sort_key fst (AList.clearjunk (map (map_prod id py_norm) kvs)))"

text \<open>\<^verbatim>\<open>a != b\<close>\<close>

definition py_ne :: "pyval \<Rightarrow> pyval \<Rightarrow> bool" where
  "py_ne a b = (py_norm a \<noteq> py_norm b)"


section \<open>Decoded responses\<close>

text \<open>
  An \<^verbatim>\<open>xml.etree.ElementTree.Element\<close>: tag, attributes, text (\<^verbatim>\<open>None\<close> for an element
  without text) and child elements in document order.
\<close>

datatype element =
  Element (elem_tag: string) (elem_attrib: "(string \<times> string) list")
          (elem_text: "string option") (elem_children: "element list")

text \<open>
  The objects the calls receive and hand out: a decoded JSON value, one element, or
  a Python list of elements (the result of \<^verbatim>\<open>findall\<close>).
\<close>

datatype pyobj = Val pyval | Elem element | Elems "element list"

text \<open>A text or attribute value that may be \<^verbatim>\<open>None\<close>.\<close>

definition opt_str :: "string option \<Rightarrow> pyval" where
  "opt_str t = (case t of None \<Rightarrow> PNone | Some s \<Rightarrow> PStr s)"

text \<open>\<^verbatim>\<open>element.find(name)\<close> for a plain tag name: the first child with that tag.\<close>

definition elem_find :: "string \<Rightarrow> element \<Rightarrow> element option" where
  "elem_find name e = find (\<lambda>c. elem_tag c = name) (elem_children e)"

text \<open>\<^verbatim>\<open>element.findall(name)\<close> for a plain tag name: all children with that tag.\<close>

definition elem_findall :: "string \<Rightarrow> element \<Rightarrow> element list" where
  "elem_findall name e = filter (\<lambda>c. elem_tag c = name) (elem_children e)"

section \<open>Errors, the transport and the client\<close>

text \<open>
  The exceptions of the source. \<open>ValueError\<close> carries the offending token of its message.
  \<open>RequestException\<close> is what \<^verbatim>\<open>requests.get\<close> raises (connection failure, timeout),
  \<open>HTTPError\<close> what \<^verbatim>\<open>raise_for_status\<close> raises; \<open>JSONDecodeError\<close> and \<open>ParseError\<close> are the
  failures of \<^verbatim>\<open>response.json()\<close> and \<^verbatim>\<open>ET.fromstring\<close>.
\<close>

datatype error =
    ValueError string
  | TypeError
  | AttributeError
  | RequestException
  | HTTPError
  | JSONDecodeError
  | ParseError

text \<open>One call of \<^verbatim>\<open>requests.get(url, params=params, timeout=timeout)\<close>.\<close>

record request =
  url :: string
  params :: pydict
  timeout :: nat

text \<open>
  A \<^verbatim>\<open>requests.Response\<close>, by what the client does with it: whether
  \<^verbatim>\<open>raise_for_status()\<close> raises, what \<^verbatim>\<open>json()\<close> returns (\<open>None\<close>: it raises), and what
  \<^verbatim>\<open>ET.fromstring(response.content)\<close> returns (\<open>None\<close>: it raises).
\<close>

record http_response =
  status_raises :: bool
  json :: "pyval option"
  fromstring_content :: "element option"

datatype reply = Raised | Returned http_response

text \<open>
  The network: the outcome of the latest \<^verbatim>\<open>requests.get\<close>, given all requests sent so far
  (the latest is the last of the list).
\<close>

type_synonym network = "request list \<Rightarrow> reply"

record DIP =
  apikey :: string
  fformat :: string

text \<open>The state a call runs in: the client object and the requests sent so far.\<close>

record world =
  client :: DIP
  sent :: "request list"

type_synonym 'a call = "world \<Rightarrow> (error + 'a) \<times> world"

definition base_url :: string where
  "base_url = ''https://search.dip.bundestag.de/api/v1''"

text \<open>
  The list literal of the source has no comma after \<^verbatim>\<open>'plenarprotokoll-text'\<close>: Python
  concatenates the two adjacent string literals.
\<close>

definition doctypes :: "string list" where
  "doctypes = [''aktivitaet'', ''drucksache'', ''drucksache-text'',
               ''person'', ''plenarprotokoll'', ''plenarprotokoll-text'' @
               ''vorgang'', ''vorgangsposition'']"

definition fformats :: "string list" where
  "fformats = [''xml'', ''json'']"

definition parameters :: "string list" where
  "parameters = [''cursor'', ''format'', ''f.id'', ''f.datum.start'', ''f.datum.end'',
                 ''f.drucksache'', ''f.plenarprotokoll'', ''f.vorgang'',
                 ''f.aktivitaet'', ''f.zuordnung'']"

definition init :: "string \<Rightarrow> string \<Rightarrow> DIP" where
  "init key fmt = \<lparr>apikey = key, fformat = fmt\<rparr>"

section \<open>Methods of the client\<close>

definition validate_resource_type :: "string \<Rightarrow> unit call" where
  "validate_resource_type resource w =
     (if resource \<notin> set doctypes then (Inl (ValueError resource), w)
      else (Inr (), w))"

text \<open>The \<^verbatim>\<open>for key in parameters\<close> loop, over the keys in iteration order.\<close>

primrec validate_keys :: "string list \<Rightarrow> unit call" where
  "validate_keys [] w = (Inr (), w)"
| "validate_keys (key # keys) w =
     (if key \<notin> set parameters then (Inl (ValueError key), w)
      else validate_keys keys w)"

definition validate_parameter_types :: "pydict \<Rightarrow> unit call" where
  "validate_parameter_types given w = validate_keys (map fst given) w"

text \<open>
  \<^verbatim>\<open>response.get(name)\<close>: a dict lookup on a decoded JSON object, an attribute lookup on an
  element; every other object has no \<^verbatim>\<open>get\<close>.
\<close>

definition obj_get :: "string \<Rightarrow> pyobj \<Rightarrow> error + pyval" where
  "obj_get name response =
     (case response of
        Val (PDict d) \<Rightarrow> Inr (dict_get d name)
      | Elem e \<Rightarrow> Inr (opt_str (map_of (elem_attrib e) name))
      | _ \<Rightarrow> Inl AttributeError)"

definition extract_documents :: "pyobj \<Rightarrow> pyobj call" where
  "extract_documents response w =
     (if fformat (client w) = ''json'' then
        (case obj_get ''documents'' response of
           Inl e \<Rightarrow> (Inl e, w)
         | Inr v \<Rightarrow> (Inr (Val v), w))
      else
        (case response of
           Elem e \<Rightarrow> (Inr (Elems (elem_findall ''document'' e)), w)
         | _ \<Rightarrow> (Inl AttributeError, w)))"

text \<open>
  In the \<^verbatim>\<open>else\<close> branch \<^verbatim>\<open>response.find('cursor')\<close> is \<^verbatim>\<open>None\<close> when there is no such
  child, and \<^verbatim>\<open>None.text\<close> raises \<^verbatim>\<open>AttributeError\<close>; so does every object that is not an
  element.
\<close>

definition extract_cursor :: "pyobj \<Rightarrow> pyval call" where
  "extract_cursor response w =
     (if fformat (client w) = ''json'' then
        (case obj_get ''cursor'' response of
           Inl e \<Rightarrow> (Inl e, w)
         | Inr v \<Rightarrow> (Inr v, w))
      else
        (case response of
           Elem e \<Rightarrow>
             (case elem_find ''cursor'' e of
                None \<Rightarrow> (Inl AttributeError, w)
              | Some c \<Rightarrow> (Inr (opt_str (elem_text c)), w))
         | _ \<Rightarrow> (Inl AttributeError, w)))"

text \<open>
  The call \<^verbatim>\<open>self._extract_cursor()\<close> of \<^verbatim>\<open>get_resource_all\<close>: the required argument
  \<^verbatim>\<open>response\<close> is missing, so Python raises \<^verbatim>\<open>TypeError\<close> before the body runs.
\<close>

definition extract_cursor_no_argument :: "pyval call" where
  "extract_cursor_no_argument w = (Inl TypeError, w)"

definition get_and_handle_response :: "network \<Rightarrow> string \<Rightarrow> pydict \<Rightarrow> pyobj call" where
  "get_and_handle_response net u ps w =
     (let w' = w\<lparr>sent := sent w @ [\<lparr>url = u, params = ps, timeout = 5\<rparr>]\<rparr> in
      case net (sent w') of
        Raised \<Rightarrow> (Inl RequestException, w')
      | Returned response \<Rightarrow>
          if status_raises response then (Inl HTTPError, w')
          else if fformat (client w') = ''json'' then
            (case json response of
               None \<Rightarrow> (Inl JSONDecodeError, w')
             | Some v \<Rightarrow> (Inr (Val v), w'))
          else
            (case fromstring_content response of
               None \<Rightarrow> (Inl ParseError, w')
             | Some e \<Rightarrow> (Inr (Elem e), w')))"

text \<open>The dict \<^verbatim>\<open>{'format': self.fformat, 'apikey': self.apikey}\<close>.\<close>

definition initial_params :: "world \<Rightarrow> pydict" where
  "initial_params w =
     [(''format'', PStr (fformat (client w))), (''apikey'', PStr (apikey (client w)))]"

definition get_resource_id :: "network \<Rightarrow> string \<Rightarrow> string \<Rightarrow> pyobj call" where
  "get_resource_id net res_type dpi_id w =
     (case validate_resource_type res_type w of
        (Inl e, w1) \<Rightarrow> (Inl e, w1)
      | (Inr _, w1) \<Rightarrow>
          get_and_handle_response net (base_url @ ''/'' @ res_type @ ''/'' @ dpi_id)
            (initial_params w1) w1)"

section \<open>The two generators\<close>

text \<open>
  \<^verbatim>\<open>get_resource_all\<close> and \<^verbatim>\<open>get_resource_multiple\<close> are generator functions: calling them
  runs nothing, and each \<^verbatim>\<open>next()\<close> runs the body up to the next \<^verbatim>\<open>yield\<close>, to the end
  (\<^verbatim>\<open>StopIteration\<close>) or to an exception. A generator object is its frame: not yet
  started (with its arguments), suspended at the \<^verbatim>\<open>yield\<close> (with the locals \<^verbatim>\<open>url\<close> and
  \<^verbatim>\<open>params\<close>), or finished.
\<close>

datatype generator =
    Created_all string
  | Created_multiple string pydict
  | Suspended_all string pydict
  | Suspended_multiple string pydict
  | Finished

datatype event = Yield pyobj | StopIteration | Raise error

type_synonym step = "event \<times> generator \<times> world"

text \<open>One pass through the \<^verbatim>\<open>while True\<close> body of \<^verbatim>\<open>get_resource_all\<close>.\<close>

definition all_loop :: "network \<Rightarrow> string \<Rightarrow> pydict \<Rightarrow> world \<Rightarrow> step" where
  "all_loop net u ps w =
     (case get_and_handle_response net u ps w of
        (Inl e, w1) \<Rightarrow> (Raise e, Finished, w1)
      | (Inr response, w1) \<Rightarrow>
          (case extract_cursor_no_argument w1 of
             (Inl e, w2) \<Rightarrow> (Raise e, Finished, w2)
           | (Inr cursor, w2) \<Rightarrow>
               if py_ne (dict_get ps ''cursor'') cursor then
                 (case extract_documents response w2 of
                    (Inl e, w3) \<Rightarrow> (Raise e, Finished, w3)
                  | (Inr page, w3) \<Rightarrow>
                      (Yield page, Suspended_all u (dict_set ''cursor'' cursor ps), w3))
               else (StopIteration, Finished, w2)))"

text \<open>One pass through the \<^verbatim>\<open>while True\<close> body of \<^verbatim>\<open>get_resource_multiple\<close>.\<close>

definition multiple_loop :: "network \<Rightarrow> string \<Rightarrow> pydict \<Rightarrow> world \<Rightarrow> step" where
  "multiple_loop net u ps w =
     (case get_and_handle_response net u ps w of
        (Inl e, w1) \<Rightarrow> (Raise e, Finished, w1)
      | (Inr response, w1) \<Rightarrow>
          (case extract_cursor response w1 of
             (Inl e, w2) \<Rightarrow> (Raise e, Finished, w2)
           | (Inr cursor, w2) \<Rightarrow>
               if py_ne (dict_get ps ''cursor'') cursor then
                 (case extract_documents response w2 of
                    (Inl e, w3) \<Rightarrow> (Raise e, Finished, w3)
                  | (Inr page, w3) \<Rightarrow>
                      (Yield page, Suspended_multiple u (dict_set ''cursor'' cursor ps), w3))
               else (StopIteration, Finished, w2)))"

text \<open>The body of \<^verbatim>\<open>get_resource_all\<close> from its start to the first pass of the loop.\<close>

definition get_resource_all :: "network \<Rightarrow> string \<Rightarrow> world \<Rightarrow> step" where
  "get_resource_all net res_type w =
     (case validate_resource_type res_type w of
        (Inl e, w1) \<Rightarrow> (Raise e, Finished, w1)
      | (Inr _, w1) \<Rightarrow>
          all_loop net (base_url @ ''/'' @ res_type) (initial_params w1) w1)"

text \<open>The body of \<^verbatim>\<open>get_resource_multiple\<close> from its start to the first pass of the loop.\<close>

definition get_resource_multiple :: "network \<Rightarrow> string \<Rightarrow> pydict \<Rightarrow> world \<Rightarrow> step" where
  "get_resource_multiple net res_type given w =
     (case validate_resource_type res_type w of
        (Inl e, w1) \<Rightarrow> (Raise e, Finished, w1)
      | (Inr _, w1) \<Rightarrow>
          (let ps = dict_update (initial_params w1) given in
           case validate_parameter_types given w1 of
             (Inl e, w2) \<Rightarrow> (Raise e, Finished, w2)
           | (Inr _, w2) \<Rightarrow> multiple_loop net (base_url @ ''/'' @ res_type) ps w2))"

text \<open>\<^verbatim>\<open>next(generator)\<close>.\<close>

fun gen_next :: "network \<Rightarrow> generator \<Rightarrow> world \<Rightarrow> step" where
  "gen_next net (Created_all res_type) w = get_resource_all net res_type w"
| "gen_next net (Created_multiple res_type given) w = get_resource_multiple net res_type given w"
| "gen_next net (Suspended_all u ps) w = all_loop net u ps w"
| "gen_next net (Suspended_multiple u ps) w = multiple_loop net u ps w"
| "gen_next net Finished w = (StopIteration, Finished, w)"

text \<open>
  A caller that pulls at most \<open>n\<close> times and stops at the first \<^verbatim>\<open>next()\<close> that does not
  yield: the pages it got, how the generator ended (\<open>None\<close>: it is still suspended), and
  the final state.
\<close>

fun pull :: "network \<Rightarrow> nat \<Rightarrow> generator \<Rightarrow> world \<Rightarrow> pyobj list \<times> event option \<times> world" where
  "pull net 0 g w = ([], None, w)"
| "pull net (Suc n) g w =
     (case gen_next net g w of
        (Yield page, g', w') \<Rightarrow>
          (case pull net n g' w' of (pages, ending, w'') \<Rightarrow> (page # pages, ending, w''))
      | (ev, g', w') \<Rightarrow> ([], Some ev, w'))"


section \<open>Facts about dicts and comparison\<close>

lemma py_ne_refl: "\<not> py_ne a a"
  by (simp add: py_ne_def)

lemma dict_get_dict_set: "dict_get (dict_set key v d) key = v"
  by (simp add: dict_get_def dict_set_def update_conv')

lemma map_of_dict_update:
  "key \<notin> fst ` set other \<Longrightarrow> map_of (dict_update d other) key = map_of d key"
  unfolding dict_update_def
proof (induction other arbitrary: d)
  case Nil
  then show ?case by simp
next
  case (Cons kv other)
  then show ?case by (simp add: dict_set_def update_conv')
qed

section \<open>Validation\<close>

lemma validate_keys_ok:
  "set keys \<subseteq> set parameters \<Longrightarrow> validate_keys keys w = (Inr (), w)"
  by (induction keys) auto

lemma validate_keys_bad:
  "\<not> set keys \<subseteq> set parameters \<Longrightarrow>
   \<exists>k. k \<in> set keys \<and> k \<notin> set parameters \<and> validate_keys keys w = (Inl (ValueError k), w)"
  by (induction keys) auto

text \<open>
  C2. The claim: \<open>validate_resource_type\<close> raises \<open>ValueError\<close> exactly for the tokens outside
  the enumerated document categories and accepts every category, in particular
  \<^verbatim>\<open>'vorgang'\<close> and \<^verbatim>\<open>'plenarprotokoll-text'\<close>. The code does not: with the comma missing
  in the \<^verbatim>\<open>doctypes\<close> literal both tokens are rejected, and the concatenated token
  \<^verbatim>\<open>'plenarprotokoll-textvorgang'\<close>, which is no document category, is accepted.
\<close>

theorem validate_resource_type_rejects_vorgang:
  "validate_resource_type ''vorgang'' w = (Inl (ValueError ''vorgang''), w) \<and>
   validate_resource_type ''plenarprotokoll-text'' w =
     (Inl (ValueError ''plenarprotokoll-text''), w) \<and>
   validate_resource_type ''plenarprotokoll-textvorgang'' w = (Inr (), w)"
  by (simp add: validate_resource_type_def doctypes_def)

text \<open>
  C7. \<open>validate_parameter_types\<close> returns without error when every key of the given dict
  is in the allow-list \<open>parameters\<close>, and raises \<open>ValueError\<close> (for a key outside the list)
  when some key is not. The outcome is determined by the keys alone: neither the values
  nor the state, and so nothing about the resource type queried, enters the check.
\<close>

theorem validate_parameter_types_allow_list:
  "(set (map fst given) \<subseteq> set parameters \<longrightarrow>
      validate_parameter_types given w = (Inr (), w)) \<and>
   (\<not> set (map fst given) \<subseteq> set parameters \<longrightarrow>
      (\<exists>k. k \<in> set (map fst given) \<and> k \<notin> set parameters \<and>
           validate_parameter_types given w = (Inl (ValueError k), w))) \<and>
   (map fst given = map fst given' \<longrightarrow>
      fst (validate_parameter_types given w) = fst (validate_parameter_types given' w'))"
proof (intro conjI impI)
  assume "set (map fst given) \<subseteq> set parameters"
  then show "validate_parameter_types given w = (Inr (), w)"
    unfolding validate_parameter_types_def by (rule validate_keys_ok)
next
  assume "\<not> set (map fst given) \<subseteq> set parameters"
  then show "\<exists>k. k \<in> set (map fst given) \<and> k \<notin> set parameters \<and>
           validate_parameter_types given w = (Inl (ValueError k), w)"
    unfolding validate_parameter_types_def by (rule validate_keys_bad)
next
  assume eq: "map fst given = map fst given'"
  have "fst (validate_keys keys w) = fst (validate_keys keys w')" for keys
    by (induction keys) auto
  then show "fst (validate_parameter_types given w) = fst (validate_parameter_types given' w')"
    unfolding validate_parameter_types_def eq by simp
qed

theorem validate_parameter_types_allow_list_witness:
  "validate_parameter_types [(''f.id'', PList [PStr ''1'', PStr ''2''])]
       \<lparr>client = init ''k'' ''json'', sent = []\<rparr>
     = (Inr (), \<lparr>client = init ''k'' ''json'', sent = []\<rparr>) \<and>
   (\<exists>k. k \<in> set (map fst [(''f.id'', PStr ''1''), (''f.nope'', PStr ''2'')]) \<and>
        k \<notin> set parameters \<and>
        validate_parameter_types [(''f.id'', PStr ''1''), (''f.nope'', PStr ''2'')]
            \<lparr>client = init ''k'' ''json'', sent = []\<rparr>
          = (Inl (ValueError k), \<lparr>client = init ''k'' ''json'', sent = []\<rparr>)) \<and>
   fst (validate_parameter_types [(''f.id'', PStr ''1'')]
          \<lparr>client = init ''k'' ''json'', sent = []\<rparr>)
     = fst (validate_parameter_types [(''f.id'', PInt 7)]
          \<lparr>client = init ''other'' ''xml'', sent = []\<rparr>)"
  using validate_parameter_types_allow_list
          [of "[(''f.id'', PList [PStr ''1'', PStr ''2''])]"
              "\<lparr>client = init ''k'' ''json'', sent = []\<rparr>"]
        validate_parameter_types_allow_list
          [of "[(''f.id'', PStr ''1''), (''f.nope'', PStr ''2'')]"
              "\<lparr>client = init ''k'' ''json'', sent = []\<rparr>"]
        validate_parameter_types_allow_list
          [of "[(''f.id'', PStr ''1'')]" "\<lparr>client = init ''k'' ''json'', sent = []\<rparr>"
              "[(''f.id'', PInt 7)]" "\<lparr>client = init ''other'' ''xml'', sent = []\<rparr>"]
  by (simp add: parameters_def)

section \<open>Extraction\<close>


lemma find_None_tag:
  "(\<forall>c \<in> set cs. elem_tag c \<noteq> name) \<Longrightarrow> find (\<lambda>c. elem_tag c = name) cs = None"
  by (simp add: find_None_iff)

text \<open>
  C4. \<open>extract_cursor\<close> treats the two formats differently. With \<open>fformat = 'json'\<close> and a
  decoded JSON object it returns the value of the \<^verbatim>\<open>'cursor'\<close> field, and \<^verbatim>\<open>None\<close>, with no
  error, when the object has no such field. With any other \<open>fformat\<close> (the markup branch)
  and an element it returns the text of the first \<^verbatim>\<open>cursor\<close> child, and fails when the
  element has no child of that name: \<^verbatim>\<open>find\<close> returns \<^verbatim>\<open>None\<close> and the attribute lookup
  \<^verbatim>\<open>None.text\<close> raises \<open>AttributeError\<close>.
\<close>

theorem extract_cursor_asymmetric:
  "(fformat (client w) = ''json'' \<longrightarrow>
      extract_cursor (Val (PDict d)) w = (Inr (dict_get d ''cursor''), w) \<and>
      (\<forall>v. map_of d ''cursor'' = Some v \<longrightarrow> extract_cursor (Val (PDict d)) w = (Inr v, w)) \<and>
      (map_of d ''cursor'' = None \<longrightarrow> extract_cursor (Val (PDict d)) w = (Inr PNone, w))) \<and>
   (fformat (client w) \<noteq> ''json'' \<longrightarrow>
      (\<forall>c. elem_find ''cursor'' e = Some c \<longrightarrow>
           extract_cursor (Elem e) w = (Inr (opt_str (elem_text c)), w)) \<and>
      ((\<forall>c \<in> set (elem_children e). elem_tag c \<noteq> ''cursor'') \<longrightarrow>
           extract_cursor (Elem e) w = (Inl AttributeError, w)))"
proof (intro conjI impI allI)
  assume "fformat (client w) = ''json''"
  then show "extract_cursor (Val (PDict d)) w = (Inr (dict_get d ''cursor''), w)"
    by (simp add: extract_cursor_def obj_get_def)
next
  fix v
  assume "fformat (client w) = ''json''" "map_of d ''cursor'' = Some v"
  then show "extract_cursor (Val (PDict d)) w = (Inr v, w)"
    by (simp add: extract_cursor_def obj_get_def dict_get_def)
next
  assume "fformat (client w) = ''json''" "map_of d ''cursor'' = None"
  then show "extract_cursor (Val (PDict d)) w = (Inr PNone, w)"
    by (simp add: extract_cursor_def obj_get_def dict_get_def)
next
  fix c
  assume "fformat (client w) \<noteq> ''json''" "elem_find ''cursor'' e = Some c"
  then show "extract_cursor (Elem e) w = (Inr (opt_str (elem_text c)), w)"
    by (simp add: extract_cursor_def)
next
  assume xml: "fformat (client w) \<noteq> ''json''"
    and absent: "\<forall>c \<in> set (elem_children e). elem_tag c \<noteq> ''cursor''"
  from absent have "elem_find ''cursor'' e = None"
    unfolding elem_find_def by (rule find_None_tag)
  with xml show "extract_cursor (Elem e) w = (Inl AttributeError, w)"
    by (simp add: extract_cursor_def)
qed

theorem extract_cursor_asymmetric_witness:
  "extract_cursor (Val (PDict [(''documents'', PList []), (''cursor'', PStr ''X'')]))
     \<lparr>client = init ''key'' ''json'', sent = []\<rparr>
     = (Inr (PStr ''X''), \<lparr>client = init ''key'' ''json'', sent = []\<rparr>) \<and>
   extract_cursor (Val (PDict [(''documents'', PList [])]))
     \<lparr>client = init ''key'' ''json'', sent = []\<rparr>
     = (Inr PNone, \<lparr>client = init ''key'' ''json'', sent = []\<rparr>) \<and>
   extract_cursor (Elem (Element ''root'' [] None
        [Element ''document'' [] None [], Element ''cursor'' [] (Some ''X'') []]))
     \<lparr>client = init ''key'' ''xml'', sent = []\<rparr>
     = (Inr (PStr ''X''), \<lparr>client = init ''key'' ''xml'', sent = []\<rparr>) \<and>
   extract_cursor (Elem (Element ''root'' [] None [Element ''document'' [] None []]))
     \<lparr>client = init ''key'' ''xml'', sent = []\<rparr>
     = (Inl AttributeError, \<lparr>client = init ''key'' ''xml'', sent = []\<rparr>)"
  using extract_cursor_asymmetric [of "\<lparr>client = init ''key'' ''json'', sent = []\<rparr>"
               "[(''documents'', PList []), (''cursor'', PStr ''X'')]"]
        extract_cursor_asymmetric [of "\<lparr>client = init ''key'' ''json'', sent = []\<rparr>" "[(''documents'', PList [])]"]
        extract_cursor_asymmetric [of "\<lparr>client = init ''key'' ''xml'', sent = []\<rparr>" _
               "Element ''root'' [] None
                  [Element ''document'' [] None [], Element ''cursor'' [] (Some ''X'') []]"]
        extract_cursor_asymmetric [of "\<lparr>client = init ''key'' ''xml'', sent = []\<rparr>" _
               "Element ''root'' [] None [Element ''document'' [] None []]"]
  by (simp add: init_def elem_find_def opt_str_def dict_get_def)

section \<open>Fetching\<close>


lemma sent_get_and_handle_response:
  "sent (snd (get_and_handle_response net u ps w))
     = sent w @ [\<lparr>url = u, params = ps, timeout = 5\<rparr>]"
  by (auto simp: get_and_handle_response_def Let_def split: reply.splits option.splits)

lemma client_get_and_handle_response:
  "client (snd (get_and_handle_response net u ps w)) = client w"
  by (auto simp: get_and_handle_response_def Let_def split: reply.splits option.splits)

text \<open>
  C8. \<open>get_and_handle_response\<close> sends exactly one request, with the given URL and
  parameters and the timeout 5. When \<^verbatim>\<open>requests.get\<close> raises (network failure) the call
  fails with that transport error, when \<^verbatim>\<open>raise_for_status\<close> raises (error status) it
  fails with \<open>HTTPError\<close>. Otherwise the body is decoded by the configured format: the
  JSON value with \<open>fformat = 'json'\<close>, the element tree otherwise, and a body that does
  not parse fails with the decoder's error.
\<close>

theorem get_and_handle_response_outcomes:
  "sent (snd (get_and_handle_response net u ps w))
     = sent w @ [\<lparr>url = u, params = ps, timeout = 5\<rparr>] \<and>
   (net (sent w @ [\<lparr>url = u, params = ps, timeout = 5\<rparr>]) = Raised \<longrightarrow>
      fst (get_and_handle_response net u ps w) = Inl RequestException) \<and>
   (\<forall>r. net (sent w @ [\<lparr>url = u, params = ps, timeout = 5\<rparr>]) = Returned r \<longrightarrow>
      (status_raises r \<longrightarrow> fst (get_and_handle_response net u ps w) = Inl HTTPError) \<and>
      (\<not> status_raises r \<and> fformat (client w) = ''json'' \<longrightarrow>
         fst (get_and_handle_response net u ps w)
           = (case json r of None \<Rightarrow> Inl JSONDecodeError | Some v \<Rightarrow> Inr (Val v))) \<and>
      (\<not> status_raises r \<and> fformat (client w) \<noteq> ''json'' \<longrightarrow>
         fst (get_and_handle_response net u ps w)
           = (case fromstring_content r of None \<Rightarrow> Inl ParseError | Some e \<Rightarrow> Inr (Elem e))))"
  by (auto simp: get_and_handle_response_def Let_def split: reply.splits option.splits)

theorem get_and_handle_response_outcomes_witness:
  "fst (get_and_handle_response (\<lambda>_. Raised) ''u'' []
          \<lparr>client = init ''key'' ''json'', sent = []\<rparr>) = Inl RequestException \<and>
   fst (get_and_handle_response
          (\<lambda>_. Returned \<lparr>status_raises = True, json = None, fromstring_content = None\<rparr>)
          ''u'' [] \<lparr>client = init ''key'' ''json'', sent = []\<rparr>) = Inl HTTPError \<and>
   fst (get_and_handle_response
          (\<lambda>_. Returned \<lparr>status_raises = False, json = Some (PDict [(''cursor'', PStr ''X'')]),
                          fromstring_content = None\<rparr>)
          ''u'' [] \<lparr>client = init ''key'' ''json'', sent = []\<rparr>)
     = Inr (Val (PDict [(''cursor'', PStr ''X'')])) \<and>
   fst (get_and_handle_response
          (\<lambda>_. Returned \<lparr>status_raises = False, json = None, fromstring_content = None\<rparr>)
          ''u'' [] \<lparr>client = init ''key'' ''json'', sent = []\<rparr>) = Inl JSONDecodeError \<and>
   fst (get_and_handle_response
          (\<lambda>_. Returned \<lparr>status_raises = False, json = None,
                          fromstring_content = Some (Element ''root'' [] None [])\<rparr>)
          ''u'' [] \<lparr>client = init ''key'' ''xml'', sent = []\<rparr>)
     = Inr (Elem (Element ''root'' [] None [])) \<and>
   fst (get_and_handle_response
          (\<lambda>_. Returned \<lparr>status_raises = False, json = None, fromstring_content = None\<rparr>)
          ''u'' [] \<lparr>client = init ''key'' ''xml'', sent = []\<rparr>) = Inl ParseError"
  using get_and_handle_response_outcomes [of "\<lambda>_. Raised" "''u''" "[]" "\<lparr>client = init ''key'' ''json'', sent = []\<rparr>"]
        get_and_handle_response_outcomes [of "\<lambda>_. Returned \<lparr>status_raises = True, json = None, fromstring_content = None\<rparr>"
               "''u''" "[]" "\<lparr>client = init ''key'' ''json'', sent = []\<rparr>"]
        get_and_handle_response_outcomes [of "\<lambda>_. Returned \<lparr>status_raises = False, json = Some (PDict [(''cursor'', PStr ''X'')]),
                          fromstring_content = None\<rparr>"
               "''u''" "[]" "\<lparr>client = init ''key'' ''json'', sent = []\<rparr>"]
        get_and_handle_response_outcomes [of "\<lambda>_. Returned \<lparr>status_raises = False, json = None, fromstring_content = None\<rparr>"
               "''u''" "[]" "\<lparr>client = init ''key'' ''json'', sent = []\<rparr>"]
        get_and_handle_response_outcomes [of "\<lambda>_. Returned \<lparr>status_raises = False, json = None,
                          fromstring_content = Some (Element ''root'' [] None [])\<rparr>"
               "''u''" "[]" "\<lparr>client = init ''key'' ''xml'', sent = []\<rparr>"]
        get_and_handle_response_outcomes [of "\<lambda>_. Returned \<lparr>status_raises = False, json = None, fromstring_content = None\<rparr>"
               "''u''" "[]" "\<lparr>client = init ''key'' ''xml'', sent = []\<rparr>"]
  by (simp add: init_def)

section \<open>Fetching one document\<close>


lemma validate_resource_type_valid:
  "res_type \<in> set doctypes \<Longrightarrow> validate_resource_type res_type w = (Inr (), w)"
  by (simp add: validate_resource_type_def)

lemma validate_resource_type_invalid:
  "res_type \<notin> set doctypes \<Longrightarrow>
   validate_resource_type res_type w = (Inl (ValueError res_type), w)"
  by (simp add: validate_resource_type_def)

text \<open>
  C6. With a valid resource type, \<open>get_resource_id\<close> is one call of
  \<open>get_and_handle_response\<close> on the URL \<^verbatim>\<open>base_url/res_type/dpi_id\<close> with the parameters
  \<^verbatim>\<open>format\<close> and \<^verbatim>\<open>apikey\<close>: it sends exactly one request and returns what that call
  returns, the decoded response itself, with no loop and no page extraction.
\<close>

theorem get_resource_id_single_request:
  assumes "res_type \<in> set doctypes"
  shows "get_resource_id net res_type dpi_id w
           = get_and_handle_response net (base_url @ ''/'' @ res_type @ ''/'' @ dpi_id)
               [(''format'', PStr (fformat (client w))), (''apikey'', PStr (apikey (client w)))] w \<and>
         sent (snd (get_resource_id net res_type dpi_id w))
           = sent w @ [\<lparr>url = base_url @ ''/'' @ res_type @ ''/'' @ dpi_id,
                         params = [(''format'', PStr (fformat (client w))),
                                   (''apikey'', PStr (apikey (client w)))],
                         timeout = 5\<rparr>]"
  using assms
  by (simp add: get_resource_id_def validate_resource_type_valid initial_params_def
        sent_get_and_handle_response)

theorem get_resource_id_single_request_witness:
  "get_resource_id
     (\<lambda>_. Returned \<lparr>status_raises = False, json = Some (PDict [(''id'', PStr ''12345'')]),
                     fromstring_content = None\<rparr>)
     ''person'' ''12345'' \<lparr>client = init ''key'' ''json'', sent = []\<rparr>
   = (Inr (Val (PDict [(''id'', PStr ''12345'')])),
      \<lparr>client = init ''key'' ''json'',
       sent = [\<lparr>url = ''https://search.dip.bundestag.de/api/v1/person/12345'',
                params = [(''format'', PStr ''json''), (''apikey'', PStr ''key'')],
                timeout = 5\<rparr>]\<rparr>)"
proof -
  have valid: "''person'' \<in> set doctypes"
    by (simp add: doctypes_def)
  show ?thesis
    using get_resource_id_single_request [OF valid, of "\<lambda>_. Returned \<lparr>status_raises = False,
                 json = Some (PDict [(''id'', PStr ''12345'')]), fromstring_content = None\<rparr>"
               "''12345''" "\<lparr>client = init ''key'' ''json'', sent = []\<rparr>"]
    by (simp add: get_and_handle_response_def init_def base_url_def)
qed

section \<open>Validation comes first\<close>

text \<open>
  C5. When validation fails, the \<open>ValueError\<close> is raised with the state unchanged, so
  with no request sent: for an invalid resource type in \<open>get_resource_id\<close> and in the
  first \<^verbatim>\<open>next()\<close> of both generators, and for a valid resource type with a parameter name
  outside the allow-list in the first \<^verbatim>\<open>next()\<close> of \<open>get_resource_multiple\<close>. The generator
  is finished afterwards, and a finished generator sends nothing either.
\<close>

theorem validation_failure_sends_nothing:
  "(res_type \<notin> set doctypes \<longrightarrow>
      get_resource_id net res_type dpi_id w = (Inl (ValueError res_type), w) \<and>
      gen_next net (Created_all res_type) w = (Raise (ValueError res_type), Finished, w) \<and>
      gen_next net (Created_multiple res_type given) w
        = (Raise (ValueError res_type), Finished, w)) \<and>
   (res_type \<in> set doctypes \<and> \<not> set (map fst given) \<subseteq> set parameters \<longrightarrow>
      (\<exists>k. k \<in> set (map fst given) \<and> k \<notin> set parameters \<and>
           gen_next net (Created_multiple res_type given) w
             = (Raise (ValueError k), Finished, w))) \<and>
   gen_next net Finished w = (StopIteration, Finished, w)"
proof (intro conjI impI)
  assume "res_type \<notin> set doctypes"
  then show "get_resource_id net res_type dpi_id w = (Inl (ValueError res_type), w)"
    by (simp add: get_resource_id_def validate_resource_type_invalid)
next
  assume "res_type \<notin> set doctypes"
  then show "gen_next net (Created_all res_type) w = (Raise (ValueError res_type), Finished, w)"
    by (simp add: get_resource_all_def validate_resource_type_invalid)
next
  assume "res_type \<notin> set doctypes"
  then show "gen_next net (Created_multiple res_type given) w
        = (Raise (ValueError res_type), Finished, w)"
    by (simp add: get_resource_multiple_def validate_resource_type_invalid)
next
  assume a: "res_type \<in> set doctypes \<and> \<not> set (map fst given) \<subseteq> set parameters"
  then obtain k where k: "k \<in> set (map fst given)" "k \<notin> set parameters"
      "validate_keys (map fst given) w = (Inl (ValueError k), w)"
    using validate_keys_bad [of "map fst given" w] by blast
  from a k(3) have "gen_next net (Created_multiple res_type given) w
             = (Raise (ValueError k), Finished, w)"
    by (simp add: get_resource_multiple_def validate_resource_type_valid
          validate_parameter_types_def Let_def)
  with k(1,2) show "\<exists>k. k \<in> set (map fst given) \<and> k \<notin> set parameters \<and>
           gen_next net (Created_multiple res_type given) w
             = (Raise (ValueError k), Finished, w)"
    by blast
next
  show "gen_next net Finished w = (StopIteration, Finished, w)"
    by simp
qed

theorem validation_failure_sends_nothing_witness:
  "get_resource_id (\<lambda>_. Raised) ''vorgaenge'' ''1'' \<lparr>client = init ''key'' ''json'', sent = []\<rparr>
     = (Inl (ValueError ''vorgaenge''), \<lparr>client = init ''key'' ''json'', sent = []\<rparr>) \<and>
   gen_next (\<lambda>_. Raised) (Created_all ''vorgaenge'') \<lparr>client = init ''key'' ''json'', sent = []\<rparr>
     = (Raise (ValueError ''vorgaenge''), Finished, \<lparr>client = init ''key'' ''json'', sent = []\<rparr>) \<and>
   gen_next (\<lambda>_. Raised) (Created_multiple ''vorgaenge'' [(''f.id'', PStr ''1'')])
       \<lparr>client = init ''key'' ''json'', sent = []\<rparr>
     = (Raise (ValueError ''vorgaenge''), Finished, \<lparr>client = init ''key'' ''json'', sent = []\<rparr>) \<and>
   gen_next (\<lambda>_. Raised) (Created_multiple ''person'' [(''f.nope'', PStr ''1'')])
       \<lparr>client = init ''key'' ''json'', sent = []\<rparr>
     = (Raise (ValueError ''f.nope''), Finished, \<lparr>client = init ''key'' ''json'', sent = []\<rparr>)"
  using validation_failure_sends_nothing [of "''vorgaenge''" "\<lambda>_. Raised" "''1''" "\<lparr>client = init ''key'' ''json'', sent = []\<rparr>"
               "[(''f.id'', PStr ''1'')]"]
        validation_failure_sends_nothing [of "''person''" "\<lambda>_. Raised" "''1''" "\<lparr>client = init ''key'' ''json'', sent = []\<rparr>"
               "[(''f.nope'', PStr ''1'')]"]
  by (simp add: doctypes_def parameters_def)

section \<open>The client object is never assigned to\<close>


lemma world_extract_cursor: "snd (extract_cursor response w) = w"
  by (auto simp: extract_cursor_def split: sum.splits pyobj.splits option.splits)

lemma world_extract_documents: "snd (extract_documents response w) = w"
  by (auto simp: extract_documents_def split: sum.splits pyobj.splits)

lemma world_validate_resource_type: "snd (validate_resource_type resource w) = w"
  by (simp add: validate_resource_type_def)

lemma world_validate_parameter_types:
  "snd (validate_parameter_types given w) = w"
proof -
  have "snd (validate_keys keys w) = w" for keys
    by (induction keys) auto
  then show ?thesis by (simp add: validate_parameter_types_def)
qed

lemma client_all_loop: "client (snd (snd (all_loop net u ps w))) = client w"
proof (cases "get_and_handle_response net u ps w")
  case (Pair r w1)
  have "client w1 = client w"
    using client_get_and_handle_response [of net u ps w] Pair by simp
  with Pair show ?thesis
    by (auto simp: all_loop_def extract_cursor_no_argument_def split: sum.splits)
qed

lemma client_multiple_loop: "client (snd (snd (multiple_loop net u ps w))) = client w"
proof (cases "get_and_handle_response net u ps w")
  case (Pair r w1)
  have w1: "client w1 = client w"
    using client_get_and_handle_response [of net u ps w] Pair by simp
  show ?thesis
  proof (cases r)
    case (Inl e)
    with Pair w1 show ?thesis by (simp add: multiple_loop_def)
  next
    case (Inr response)
    obtain c w2 where c: "extract_cursor response w1 = (c, w2)" by (cases "extract_cursor response w1")
    have w2: "w2 = w1" using world_extract_cursor [of response w1] c by simp
    obtain p w3 where p: "extract_documents response w2 = (p, w3)"
      by (cases "extract_documents response w2")
    have w3: "w3 = w2" using world_extract_documents [of response w2] p by simp
    from Pair Inr c p w1 w2 w3 show ?thesis
      by (auto simp: multiple_loop_def split: sum.splits)
  qed
qed

lemma client_gen_next: "client (snd (snd (gen_next net g w))) = client w"
proof (cases g)
  case (Created_all res_type)
  then show ?thesis
    using client_all_loop
    by (auto simp: get_resource_all_def validate_resource_type_def)
next
  case (Created_multiple res_type given)
  obtain r w2 where v: "validate_parameter_types given w = (r, w2)"
    by (cases "validate_parameter_types given w")
  have "w2 = w" using world_validate_parameter_types [of given w] v by simp
  with Created_multiple v show ?thesis
    using client_multiple_loop
    by (auto simp: get_resource_multiple_def validate_resource_type_def Let_def split: sum.splits)
next
  case (Suspended_all u ps)
  then show ?thesis by (simp add: client_all_loop)
next
  case (Suspended_multiple u ps)
  then show ?thesis by (simp add: client_multiple_loop)
next
  case Finished
  then show ?thesis by simp
qed

lemma client_pull: "client (snd (snd (pull net n g w))) = client w"
proof (induction n arbitrary: g w)
  case 0
  then show ?case by simp
next
  case (Suc n)
  obtain ev g' w' where s: "gen_next net g w = (ev, g', w')"
    by (cases "gen_next net g w") auto
  have w': "client w' = client w"
    using client_gen_next [of net g w] s by simp
  show ?case
  proof (cases ev)
    case (Yield page)
    obtain pages ending w'' where p: "pull net n g' w' = (pages, ending, w'')"
      by (cases "pull net n g' w'") auto
    have "client w'' = client w'"
      using Suc.IH [of g' w'] p by simp
    with s Yield p w' show ?thesis by simp
  next
    case StopIteration
    with s w' show ?thesis by simp
  next
    case (Raise e)
    with s w' show ?thesis by simp
  qed
qed

text \<open>
  C9. No operation changes the configuration: after each of the validations, the
  extractions, the fetch, \<open>get_resource_id\<close>, every \<^verbatim>\<open>next()\<close> of either generator in any
  of its states, and any number of pulls, whatever the outcome, the client object has the
  \<open>apikey\<close> and \<open>fformat\<close> it had before.
\<close>

theorem client_configuration_unchanged:
  "client (snd (validate_resource_type resource w)) = client w \<and>
   client (snd (validate_parameter_types given w)) = client w \<and>
   client (snd (extract_documents response w)) = client w \<and>
   client (snd (extract_cursor response w)) = client w \<and>
   client (snd (get_and_handle_response net u ps w)) = client w \<and>
   client (snd (get_resource_id net res_type dpi_id w)) = client w \<and>
   client (snd (snd (gen_next net g w))) = client w \<and>
   client (snd (snd (pull net n g w))) = client w"
proof (intro conjI)
  show "client (snd (get_resource_id net res_type dpi_id w)) = client w"
    by (simp add: get_resource_id_def validate_resource_type_def client_get_and_handle_response)
qed (simp_all add: world_validate_resource_type world_validate_parameter_types
       world_extract_documents world_extract_cursor client_get_and_handle_response
       client_gen_next client_pull)

section \<open>The pagination loop\<close>


lemma extract_documents_after_cursor:
  assumes "extract_cursor response w = (Inr cursor, w')"
  shows "w' = w \<and> (\<exists>page. extract_documents response w = (Inr page, w))"
proof (cases "fformat (client w) = ''json''")
  case True
  with assms show ?thesis
    by (cases response)
       (auto simp: extract_cursor_def extract_documents_def obj_get_def
             split: sum.splits pyval.splits)
next
  case False
  with assms show ?thesis
    by (cases response)
       (auto simp: extract_cursor_def extract_documents_def split: option.splits)
qed

lemma multiple_loop_stop:
  assumes "get_and_handle_response net u ps w = (Inr response, w1)"
    and "extract_cursor response w1 = (Inr cursor, w2)"
    and "\<not> py_ne (dict_get ps ''cursor'') cursor"
  shows "multiple_loop net u ps w = (StopIteration, Finished, w2)"
  using assms by (simp add: multiple_loop_def)

lemma multiple_loop_yield:
  assumes "get_and_handle_response net u ps w = (Inr response, w1)"
    and "extract_cursor response w1 = (Inr cursor, w2)"
    and "py_ne (dict_get ps ''cursor'') cursor"
  shows "\<exists>page. extract_documents response w2 = (Inr page, w2) \<and>
           multiple_loop net u ps w
             = (Yield page, Suspended_multiple u (dict_set ''cursor'' cursor ps), w2)"
proof -
  from extract_documents_after_cursor [OF assms(2)]
  obtain page where "w2 = w1" "extract_documents response w1 = (Inr page, w1)"
    by blast
  with assms show ?thesis
    by (simp add: multiple_loop_def)
qed

lemma pull_Finished: "fst (pull net n Finished w) = []"
  by (cases n) simp_all

text \<open>
  C3. One pass of the loop of \<open>get_resource_multiple\<close> in which the fetch succeeds and a
  cursor is extracted. If the new cursor equals (\<^verbatim>\<open>==\<close>) the cursor in the outgoing
  parameters, the generator stops and that response's page is not yielded. If it
  differs, the page of that response is yielded and the generator is suspended with the
  outgoing cursor set to the new value. Hence, when the next fetch (with the updated
  parameters) extracts a cursor equal to the one just extracted, no further page is
  produced, however often the caller pulls.
\<close>

theorem multiple_loop_cursor_rule:
  assumes fetch: "get_and_handle_response net u ps w = (Inr response, w1)"
    and cur: "extract_cursor response w1 = (Inr cursor, w2)"
  shows "(\<not> py_ne (dict_get ps ''cursor'') cursor \<longrightarrow>
            multiple_loop net u ps w = (StopIteration, Finished, w2)) \<and>
         (py_ne (dict_get ps ''cursor'') cursor \<longrightarrow>
            (\<exists>page. extract_documents response w2 = (Inr page, w2) \<and>
               multiple_loop net u ps w
                 = (Yield page, Suspended_multiple u (dict_set ''cursor'' cursor ps), w2)) \<and>
            dict_get (dict_set ''cursor'' cursor ps) ''cursor'' = cursor) \<and>
         (\<forall>response' w1' cursor' w2' n.
            get_and_handle_response net u (dict_set ''cursor'' cursor ps) w2 = (Inr response', w1') \<and>
            extract_cursor response' w1' = (Inr cursor', w2') \<and>
            \<not> py_ne cursor cursor' \<longrightarrow>
            fst (pull net n (fst (snd (multiple_loop net u ps w)))
                            (snd (snd (multiple_loop net u ps w)))) = [])"
proof (intro conjI impI allI)
  assume "\<not> py_ne (dict_get ps ''cursor'') cursor"
  with fetch cur show "multiple_loop net u ps w = (StopIteration, Finished, w2)"
    by (rule multiple_loop_stop)
next
  assume "py_ne (dict_get ps ''cursor'') cursor"
  with fetch cur show "\<exists>page. extract_documents response w2 = (Inr page, w2) \<and>
               multiple_loop net u ps w
                 = (Yield page, Suspended_multiple u (dict_set ''cursor'' cursor ps), w2)"
    by (rule multiple_loop_yield)
next
  show "dict_get (dict_set ''cursor'' cursor ps) ''cursor'' = cursor"
    by (rule dict_get_dict_set)
next
  fix response' w1' cursor' w2' n
  assume second: "get_and_handle_response net u (dict_set ''cursor'' cursor ps) w2 = (Inr response', w1') \<and>
            extract_cursor response' w1' = (Inr cursor', w2') \<and> \<not> py_ne cursor cursor'"
  show "fst (pull net n (fst (snd (multiple_loop net u ps w)))
                        (snd (snd (multiple_loop net u ps w)))) = []"
  proof (cases "py_ne (dict_get ps ''cursor'') cursor")
    case False
    with fetch cur have "multiple_loop net u ps w = (StopIteration, Finished, w2)"
      by (simp add: multiple_loop_stop)
    then show ?thesis by (simp add: pull_Finished)
  next
    case True
    with fetch cur obtain page where
      first: "multiple_loop net u ps w
                = (Yield page, Suspended_multiple u (dict_set ''cursor'' cursor ps), w2)"
      using multiple_loop_yield by blast
    from second have "\<not> py_ne (dict_get (dict_set ''cursor'' cursor ps) ''cursor'') cursor'"
      by (simp add: dict_get_dict_set)
    with second have stop:
      "multiple_loop net u (dict_set ''cursor'' cursor ps) w2 = (StopIteration, Finished, w2')"
      by (simp add: multiple_loop_stop)
    show ?thesis
    proof (cases n)
      case 0
      then show ?thesis by simp
    next
      case (Suc m)
      with first stop show ?thesis by simp
    qed
  qed
qed

theorem multiple_loop_cursor_rule_witness:
  "multiple_loop
     (\<lambda>reqs. Returned \<lparr>status_raises = False,
        json = Some (PDict [(''documents'', PList [PStr (if length reqs = 1 then ''d1'' else ''d2'')]),
                            (''cursor'', PStr ''A'')]),
        fromstring_content = None\<rparr>)
     ''u'' [(''format'', PStr ''json'')] \<lparr>client = init ''key'' ''json'', sent = []\<rparr>
   = (Yield (Val (PList [PStr ''d1''])),
      Suspended_multiple ''u'' [(''format'', PStr ''json''), (''cursor'', PStr ''A'')],
      \<lparr>client = init ''key'' ''json'',
       sent = [\<lparr>url = ''u'', params = [(''format'', PStr ''json'')], timeout = 5\<rparr>]\<rparr>) \<and>
   fst (pull
     (\<lambda>reqs. Returned \<lparr>status_raises = False,
        json = Some (PDict [(''documents'', PList [PStr (if length reqs = 1 then ''d1'' else ''d2'')]),
                            (''cursor'', PStr ''A'')]),
        fromstring_content = None\<rparr>)
     3 (Suspended_multiple ''u'' [(''format'', PStr ''json''), (''cursor'', PStr ''A'')])
     \<lparr>client = init ''key'' ''json'',
      sent = [\<lparr>url = ''u'', params = [(''format'', PStr ''json'')], timeout = 5\<rparr>]\<rparr>) = []"
proof -
  let ?net = "\<lambda>reqs :: request list. Returned \<lparr>status_raises = False,
        json = Some (PDict [(''documents'', PList [PStr (if length reqs = 1 then ''d1'' else ''d2'')]),
                            (''cursor'', PStr ''A'')]),
        fromstring_content = None\<rparr>"
  let ?w = "\<lparr>client = init ''key'' ''json'', sent = []\<rparr>"
  let ?r1 = "\<lparr>url = ''u'', params = [(''format'', PStr ''json'')], timeout = 5\<rparr>"
  let ?w1 = "\<lparr>client = init ''key'' ''json'', sent = [?r1]\<rparr>"
  let ?ps' = "[(''format'', PStr ''json''), (''cursor'', PStr ''A'')]"
  let ?r2 = "\<lparr>url = ''u'', params = ?ps', timeout = 5\<rparr>"
  let ?w2 = "\<lparr>client = init ''key'' ''json'', sent = [?r1, ?r2]\<rparr>"
  let ?resp1 = "Val (PDict [(''documents'', PList [PStr ''d1'']), (''cursor'', PStr ''A'')])"
  let ?resp2 = "Val (PDict [(''documents'', PList [PStr ''d2'']), (''cursor'', PStr ''A'')])"
  have set: "dict_set ''cursor'' (PStr ''A'') [(''format'', PStr ''json'')] = ?ps'"
    by (simp add: dict_set_def)
  have fetch1: "get_and_handle_response ?net ''u'' [(''format'', PStr ''json'')] ?w = (Inr ?resp1, ?w1)"
    by (simp add: get_and_handle_response_def init_def)
  have cur1: "extract_cursor ?resp1 ?w1 = (Inr (PStr ''A''), ?w1)"
    by (simp add: extract_cursor_def obj_get_def dict_get_def init_def)
  have fetch2: "get_and_handle_response ?net ''u'' ?ps' ?w1 = (Inr ?resp2, ?w2)"
    by (simp add: get_and_handle_response_def init_def)
  have cur2: "extract_cursor ?resp2 ?w2 = (Inr (PStr ''A''), ?w2)"
    by (simp add: extract_cursor_def obj_get_def dict_get_def init_def)
  have docs: "extract_documents ?resp1 ?w1 = (Inr (Val (PList [PStr ''d1''])), ?w1)"
    by (simp add: extract_documents_def obj_get_def dict_get_def init_def)
  have differs: "py_ne (dict_get [(''format'', PStr ''json'')] ''cursor'') (PStr ''A'')"
    by (simp add: py_ne_def dict_get_def)
  have same: "\<not> py_ne (PStr ''A'') (PStr ''A'')"
    by (simp add: py_ne_def)
  from multiple_loop_cursor_rule [OF fetch1 cur1] differs docs set
  have first: "multiple_loop ?net ''u'' [(''format'', PStr ''json'')] ?w
                 = (Yield (Val (PList [PStr ''d1''])), Suspended_multiple ''u'' ?ps', ?w1)"
    by auto
  from multiple_loop_cursor_rule [OF fetch1 cur1] fetch2 cur2 same set
  have "fst (pull ?net 3 (fst (snd (multiple_loop ?net ''u'' [(''format'', PStr ''json'')] ?w)))
                         (snd (snd (multiple_loop ?net ''u'' [(''format'', PStr ''json'')] ?w)))) = []"
    by metis
  with first show ?thesis by simp
qed

lemma dict_get_absent: "map_of d key = None \<Longrightarrow> dict_get d key = PNone"
  by (simp add: dict_get_def)

lemma initial_cursor_unset:
  assumes "''cursor'' \<notin> fst ` set given"
  shows "dict_get (dict_update (initial_params w) given) ''cursor'' = PNone"
proof -
  have "map_of (dict_update (initial_params w) given) ''cursor''
          = map_of (initial_params w) ''cursor''"
    using assms by (rule map_of_dict_update)
  also have "\<dots> = None"
    by (simp add: initial_params_def)
  finally show ?thesis by (rule dict_get_absent)
qed

text \<open>
  C10. \<open>get_resource_multiple\<close> with \<open>fformat = 'json'\<close>, valid arguments and no
  \<^verbatim>\<open>cursor\<close> among the caller's parameters: if the first response decodes to an object
  without a \<^verbatim>\<open>cursor\<close> field, the extracted cursor \<^verbatim>\<open>None\<close> equals the unset outgoing
  cursor, so the first \<^verbatim>\<open>next()\<close> ends the generator: one request is sent, no page is
  yielded and no error is raised, whatever the \<^verbatim>\<open>documents\<close> field of that response holds.
\<close>

theorem missing_cursor_drops_first_page:
  assumes fmt: "fformat (client w) = ''json''"
    and res: "res_type \<in> set doctypes"
    and keys: "set (map fst given) \<subseteq> set parameters"
    and unset: "''cursor'' \<notin> fst ` set given"
    and reply: "net (sent w @ [\<lparr>url = base_url @ ''/'' @ res_type,
                                params = dict_update (initial_params w) given,
                                timeout = 5\<rparr>]) = Returned r"
    and ok: "\<not> status_raises r"
    and body: "json r = Some (PDict d)"
    and absent: "map_of d ''cursor'' = None"
  shows "gen_next net (Created_multiple res_type given) w
           = (StopIteration, Finished,
              w\<lparr>sent := sent w @ [\<lparr>url = base_url @ ''/'' @ res_type,
                                    params = dict_update (initial_params w) given,
                                    timeout = 5\<rparr>]\<rparr>) \<and>
         pull net (Suc n) (Created_multiple res_type given) w
           = ([], Some StopIteration,
              w\<lparr>sent := sent w @ [\<lparr>url = base_url @ ''/'' @ res_type,
                                    params = dict_update (initial_params w) given,
                                    timeout = 5\<rparr>]\<rparr>)"
proof -
  let ?u = "base_url @ ''/'' @ res_type"
  let ?ps = "dict_update (initial_params w) given"
  let ?w1 = "w\<lparr>sent := sent w @ [\<lparr>url = ?u, params = ?ps, timeout = 5\<rparr>]\<rparr>"
  have fetch: "get_and_handle_response net ?u ?ps w = (Inr (Val (PDict d)), ?w1)"
    using fmt reply ok body by (simp add: get_and_handle_response_def)
  have cur: "extract_cursor (Val (PDict d)) ?w1 = (Inr PNone, ?w1)"
    using fmt absent by (simp add: extract_cursor_def obj_get_def dict_get_absent)
  have same: "\<not> py_ne (dict_get ?ps ''cursor'') PNone"
    using unset by (simp add: initial_cursor_unset py_ne_refl)
  have loop: "multiple_loop net ?u ?ps w = (StopIteration, Finished, ?w1)"
    using fetch cur same by (simp add: multiple_loop_def)
  have step: "gen_next net (Created_multiple res_type given) w = (StopIteration, Finished, ?w1)"
    using res keys loop
    by (simp add: get_resource_multiple_def validate_resource_type_valid
          validate_parameter_types_def validate_keys_ok Let_def)
  then show ?thesis by simp
qed

theorem missing_cursor_drops_first_page_witness:
  "pull (\<lambda>_. Returned \<lparr>status_raises = False,
                        json = Some (PDict [(''documents'', PList [PDict [(''id'', PStr ''1'')]])]),
                        fromstring_content = None\<rparr>)
     (Suc 2) (Created_multiple ''person'' [(''f.id'', PStr ''1'')])
     \<lparr>client = init ''key'' ''json'', sent = []\<rparr>
   = ([], Some StopIteration,
      \<lparr>client = init ''key'' ''json'',
       sent = [\<lparr>url = ''https://search.dip.bundestag.de/api/v1/person'',
                params = [(''format'', PStr ''json''), (''apikey'', PStr ''key''),
                          (''f.id'', PStr ''1'')],
                timeout = 5\<rparr>]\<rparr>)"
proof -
  let ?r = "\<lparr>status_raises = False,
            json = Some (PDict [(''documents'', PList [PDict [(''id'', PStr ''1'')]])]),
            fromstring_content = None\<rparr>"
  let ?w = "\<lparr>client = init ''key'' ''json'', sent = []\<rparr>"
  have fmt: "fformat (client ?w) = ''json''"
    by (simp add: init_def)
  have res: "''person'' \<in> set doctypes"
    by (simp add: doctypes_def)
  have keys: "set (map fst [(''f.id'', PStr ''1'')]) \<subseteq> set parameters"
    by (simp add: parameters_def)
  have unset: "''cursor'' \<notin> fst ` set [(''f.id'', PStr ''1'')]"
    by simp
  have absent: "map_of [(''documents'', PList [PDict [(''id'', PStr ''1'')]])] ''cursor'' = None"
    by simp
  show ?thesis
    using missing_cursor_drops_first_page [where net = "\<lambda>_. Returned ?r" and r = ?r and w = ?w and n = 2,
               OF fmt res keys unset _ _ _ absent]
    by (simp add: init_def base_url_def initial_params_def dict_update_def dict_set_def)
qed

text \<open>
  C1. The claim: \<open>get_resource_all\<close> pages like \<open>get_resource_multiple\<close>, and when the first
  response decodes and carries a cursor, the first page is yielded. The code does not:
  its loop calls \<^verbatim>\<open>self._extract_cursor()\<close> without the response, which raises
  \<open>TypeError\<close>. For the resource type \<^verbatim>\<open>'person'\<close> and a first response
  \<^verbatim>\<open>{"documents": [{"id": "1"}], "cursor": "X"}\<close> the first \<^verbatim>\<open>next()\<close> sends the request and
  then raises, where \<open>get_resource_multiple\<close> with no extra parameters yields the page on
  the same response; and \<open>get_resource_all\<close> yields no page on any input.
\<close>

theorem get_resource_all_raises_TypeError:
  "gen_next (\<lambda>_. Returned \<lparr>status_raises = False,
                json = Some (PDict [(''documents'', PList [PDict [(''id'', PStr ''1'')]]),
                                    (''cursor'', PStr ''X'')]),
                fromstring_content = None\<rparr>)
     (Created_all ''person'') \<lparr>client = init ''key'' ''json'', sent = []\<rparr>
   = (Raise TypeError, Finished,
      \<lparr>client = init ''key'' ''json'',
       sent = [\<lparr>url = ''https://search.dip.bundestag.de/api/v1/person'',
                params = [(''format'', PStr ''json''), (''apikey'', PStr ''key'')],
                timeout = 5\<rparr>]\<rparr>) \<and>
   gen_next (\<lambda>_. Returned \<lparr>status_raises = False,
                json = Some (PDict [(''documents'', PList [PDict [(''id'', PStr ''1'')]]),
                                    (''cursor'', PStr ''X'')]),
                fromstring_content = None\<rparr>)
     (Created_multiple ''person'' []) \<lparr>client = init ''key'' ''json'', sent = []\<rparr>
   = (Yield (Val (PList [PDict [(''id'', PStr ''1'')]])),
      Suspended_multiple ''https://search.dip.bundestag.de/api/v1/person''
        [(''format'', PStr ''json''), (''apikey'', PStr ''key''), (''cursor'', PStr ''X'')],
      \<lparr>client = init ''key'' ''json'',
       sent = [\<lparr>url = ''https://search.dip.bundestag.de/api/v1/person'',
                params = [(''format'', PStr ''json''), (''apikey'', PStr ''key'')],
                timeout = 5\<rparr>]\<rparr>) \<and>
   (\<forall>net res_type w page. fst (gen_next net (Created_all res_type) w) \<noteq> Yield page)"
proof (intro conjI allI)
  fix net res_type w page
  show "fst (gen_next net (Created_all res_type) w) \<noteq> Yield page"
    by (auto simp: get_resource_all_def all_loop_def extract_cursor_no_argument_def
          validate_resource_type_def split: prod.splits sum.splits)
qed (simp_all add: get_resource_all_def get_resource_multiple_def all_loop_def multiple_loop_def
       validate_resource_type_def validate_parameter_types_def doctypes_def
       get_and_handle_response_def extract_cursor_no_argument_def extract_cursor_def
       extract_documents_def obj_get_def dict_get_def dict_set_def dict_update_def
       initial_params_def init_def base_url_def py_ne_def)

end
